theory Spec2Isabelle
  imports Complex_Main
begin

section \<open>Conventions of the embedding\<close>

text \<open>
  The theory embeds \<^verbatim>\<open>optionstools/strategy.py\<close>, \<^verbatim>\<open>optionstools/util.py\<close> and
  \<^verbatim>\<open>optionstools/optimizer.py\<close>.

  \<^item> Python numbers (\<^verbatim>\<open>int\<close> and \<^verbatim>\<open>float\<close>) are idealised as \<^typ>\<open>real\<close>: rounding is
    not modelled. The sign flags \<^verbatim>\<open>1\<close>/\<^verbatim>\<open>-1\<close> and the \<^verbatim>\<open>leg\<close> index are \<^typ>\<open>int\<close>.
    Division follows the Python operator \<^verbatim>\<open>/\<close>: a zero divisor raises
    \<^verbatim>\<open>ZeroDivisionError\<close>.
  \<^item> A raised exception is a value of the type \<open>error\<close>; a property or method that may
    raise returns \<open>error + 'a\<close>. A method that mutates its object before it raises
    returns the exception (if any) together with the mutated object.
  \<^item> An attribute that \<^verbatim>\<open>__init__\<close> does not set is an \<open>option\<close> field, \<open>None\<close> until it
    is assigned; reading it while unset raises \<^verbatim>\<open>AttributeError\<close>.
  \<^item> A dict whose iteration order matters is an association list in insertion order
    (its keys are distinct, as a dict's are).
  \<^item> The leg dicts of a strategy class are objects on a heap, a function from
    addresses to dicts, since \<^verbatim>\<open>best_strategy\<close> writes into them.
  \<^item> The pricing module (\<^verbatim>\<open>optionstools.pricing\<close>) and the solver
    (\<^verbatim>\<open>scipy.optimize.minimize\<close>) are parameters of the functions that call them.
\<close>

datatype error =
    UnoptimizedStrategyOptimizerException
  | AttributeError
  | KeyError
  | IndexError
  | ValueError
  | ZeroDivisionError

definition bind_e :: "error + 'a \<Rightarrow> ('a \<Rightarrow> error + 'b) \<Rightarrow> error + 'b" where
  "bind_e m f = (case m of Inl e \<Rightarrow> Inl e | Inr v \<Rightarrow> f v)"

fun map_e :: "('a \<Rightarrow> error + 'b) \<Rightarrow> 'a list \<Rightarrow> error + 'b list" where
  "map_e f [] = Inr []"
| "map_e f (x # xs) = bind_e (f x) (\<lambda>y. bind_e (map_e f xs) (\<lambda>ys. Inr (y # ys)))"

text \<open>The builtins \<^verbatim>\<open>min\<close> and \<^verbatim>\<open>max\<close> of a sequence: \<^verbatim>\<open>ValueError\<close> when it is empty.\<close>

definition py_min :: "real list \<Rightarrow> error + real" where
  "py_min xs = (case xs of [] \<Rightarrow> Inl ValueError | y # ys \<Rightarrow> Inr (fold min ys y))"

definition py_max :: "real list \<Rightarrow> error + real" where
  "py_max xs = (case xs of [] \<Rightarrow> Inl ValueError | y # ys \<Rightarrow> Inr (fold max ys y))"

text \<open>\<^verbatim>\<open>str.lower\<close> on the ASCII letters; every other character is left as it is.\<close>

definition lower_char :: "char \<Rightarrow> char" where
  "lower_char c =
     (case map_of (zip ''ABCDEFGHIJKLMNOPQRSTUVWXYZ'' ''abcdefghijklmnopqrstuvwxyz'') c of
        Some d \<Rightarrow> d
      | None \<Rightarrow> c)"

definition lower :: "string \<Rightarrow> string" where
  "lower s = map lower_char s"

section \<open>The strategies (\<^verbatim>\<open>strategy.py\<close>)\<close>

text \<open>
  The available-options catalog \<^verbatim>\<open>{'CALL': {days: [strike, ...], ...}, 'PUT': ...}\<close>.
\<close>

type_synonym by_days = "(real \<times> real list) list"
type_synonym catalog = "(string \<times> by_days) list"

definition getitem :: "catalog \<Rightarrow> string \<Rightarrow> error + by_days" where
  "getitem d k = (case map_of d k of None \<Rightarrow> Inl KeyError | Some v \<Rightarrow> Inr v)"

text \<open>
  A leg dict. The class bodies give it the keys \<^verbatim>\<open>type\<close> and \<^verbatim>\<open>action\<close>;
  \<^verbatim>\<open>best_strategy\<close> adds \<^verbatim>\<open>strike\<close>, \<^verbatim>\<open>days_to_expiration\<close> and \<^verbatim>\<open>quantity\<close>.
\<close>

record leg =
  type :: string
  action :: string
  strike :: "real option"
  days_to_expiration :: "real option"
  quantity :: "real option"

type_synonym addr = nat
type_synonym heap = "addr \<Rightarrow> leg"

datatype strategy_class =
  BullCallSpread | BearPutSpread | ProtectiveCollar | LongStrangle | LongStraddle

text \<open>
  \<^verbatim>\<open>options\<close> is a class attribute: one list of two dicts per class, created when the
  module is loaded and shared by every instance of the class. The list holds the
  addresses of the dicts; \<open>module_heap\<close> is the heap right after the import.
\<close>

fun options :: "strategy_class \<Rightarrow> addr list" where
  "options BullCallSpread = [0, 1]"
| "options BearPutSpread = [2, 3]"
| "options ProtectiveCollar = [4, 5]"
| "options LongStrangle = [6, 7]"
| "options LongStraddle = [8, 9]"

definition new_leg :: "string \<Rightarrow> string \<Rightarrow> leg" where
  "new_leg t a =
     \<lparr>type = t, action = a, strike = None, days_to_expiration = None, quantity = None\<rparr>"

definition module_heap :: heap where
  "module_heap =
     (\<lambda>_. new_leg [] [])
       (0 := new_leg ''call'' ''buy'', 1 := new_leg ''call'' ''sell'',
        2 := new_leg ''put'' ''buy'', 3 := new_leg ''put'' ''sell'',
        4 := new_leg ''put'' ''buy'', 5 := new_leg ''call'' ''sell'',
        6 := new_leg ''call'' ''buy'', 7 := new_leg ''put'' ''buy'',
        8 := new_leg ''put'' ''buy'', 9 := new_leg ''call'' ''buy'')"

record OptionsStrategy =
  cls :: strategy_class
  underlying_price :: real
  min_days_to_expiration :: real
  available_options :: catalog

definition leg_count :: "OptionsStrategy \<Rightarrow> nat" where
  "leg_count s = length (options (cls s))"

text \<open>\<^verbatim>\<open>self.strategy.options\<close> as the optimizers read it: the dicts behind the addresses.\<close>

definition strategy_options :: "heap \<Rightarrow> OptionsStrategy \<Rightarrow> leg list" where
  "strategy_options h s = map h (options (cls s))"

text \<open>The linear constraint \<^verbatim>\<open>definition\<close>: the matrix \<^verbatim>\<open>A\<close> and the two bound vectors.\<close>

record linear_definition =
  A :: "real list list"
  lower_bound :: "real list"
  upper_bound :: "real list"

fun definition_of :: "strategy_class \<Rightarrow> linear_definition" where
  "definition_of BullCallSpread =
     \<lparr>A = [[0, 1, 0, -1, 0], [0, 0, 1, 0, -1]], lower_bound = [-100000, 0],
      upper_bound = [-1, 0]\<rparr>"
| "definition_of BearPutSpread =
     \<lparr>A = [[0, 1, 0, -1, 0], [0, 0, 1, 0, -1]], lower_bound = [1, 0],
      upper_bound = [10000, 0]\<rparr>"
| "definition_of ProtectiveCollar =
     \<lparr>A = [[0, 0, 1, 0, -1]], lower_bound = [0], upper_bound = [0]\<rparr>"
| "definition_of LongStrangle =
     \<lparr>A = [[0, 0, 1, 0, -1]], lower_bound = [0], upper_bound = [0]\<rparr>"
| "definition_of LongStraddle =
     \<lparr>A = [[0, 1, 0, -1, 0], [0, 0, 1, 0, -1]], lower_bound = [0, 0],
      upper_bound = [0, 0]\<rparr>"

fun x0_of :: "strategy_class \<Rightarrow> real \<Rightarrow> real \<Rightarrow> real list" where
  "x0_of BullCallSpread u m = [1, u - 1, m + 1, u + 1, m + 1]"
| "x0_of BearPutSpread u m = [1, u + 1, m, u - 1, m]"
| "x0_of ProtectiveCollar u m = [1, u - 1, m, u + 1, m]"
| "x0_of LongStrangle u m = [1, u + 1, m, u - 1, m]"
| "x0_of LongStraddle u m = [1, u, m, u, m]"

definition x0 :: "OptionsStrategy \<Rightarrow> real list" where
  "x0 s = x0_of (cls s) (underlying_price s) (min_days_to_expiration s)"

text \<open>
  The four lines every \<^verbatim>\<open>bounds\<close> repeats for an option type \<open>k\<close>, in their order:
  the least and greatest key of \<^verbatim>\<open>available_options[k]\<close>, then the least of the least
  strikes and the greatest of the greatest strikes over its items. The result is
  (min days, max days, min strike, max strike).
\<close>

definition ranges :: "catalog \<Rightarrow> string \<Rightarrow> error + (real \<times> real \<times> real \<times> real)" where
  "ranges av k =
     bind_e (getitem av k) (\<lambda>d1. bind_e (py_min (map fst d1)) (\<lambda>min_days.
     bind_e (getitem av k) (\<lambda>d2. bind_e (py_max (map fst d2)) (\<lambda>max_days.
     bind_e (getitem av k) (\<lambda>d3. bind_e (map_e (\<lambda>(_, strikes). py_min strikes) d3) (\<lambda>los.
     bind_e (py_min los) (\<lambda>min_strike.
     bind_e (getitem av k) (\<lambda>d4. bind_e (map_e (\<lambda>(_, strikes). py_max strikes) d4) (\<lambda>his.
     bind_e (py_max his) (\<lambda>max_strike.
     Inr (min_days, max_days, min_strike, max_strike)))))))))))"

fun bounds_of ::
  "strategy_class \<Rightarrow> real \<Rightarrow> real \<Rightarrow> catalog \<Rightarrow> error + (real \<times> real) list" where
  "bounds_of BullCallSpread u m av =
     bind_e (ranges av ''CALL'') (\<lambda>(min_call_days, max_call_days, min_call_strike, max_call_strike).
     Inr [(1, 1000),
          (min_call_strike, u * (1001 / 1000)),
          (max min_call_days (m + 1), max_call_days),
          (u * (999 / 1000), max_call_strike),
          (max min_call_days (m + 1), max_call_days)])"
| "bounds_of BearPutSpread u m av =
     bind_e (ranges av ''PUT'') (\<lambda>(min_put_days, max_put_days, min_put_strike, max_put_strike).
     Inr [(1, 1000),
          (min_put_strike, max_put_strike),
          (max min_put_days (m + 1), max_put_days),
          (min_put_strike, max_put_strike),
          (max min_put_days (m + 1), max_put_days)])"
| "bounds_of ProtectiveCollar u m av =
     bind_e (ranges av ''PUT'') (\<lambda>(min_put_days, max_put_days, min_put_strike, max_put_strike).
     bind_e (ranges av ''CALL'') (\<lambda>(min_call_days, max_call_days, min_call_strike, max_call_strike).
     Inr [(1 / 1000, 1000),
          (min_put_strike, u * (99 / 100)),
          (max min_put_days (m + 1), max_put_days),
          (u * (101 / 100), max_call_strike),
          (max min_call_days (m + 1), max_call_days)]))"
| "bounds_of LongStrangle u m av =
     bind_e (ranges av ''PUT'') (\<lambda>(min_put_days, max_put_days, min_put_strike, max_put_strike).
     bind_e (ranges av ''CALL'') (\<lambda>(min_call_days, max_call_days, min_call_strike, max_call_strike).
     Inr [(1, 1000),
          (u * (1001 / 1000), max_call_strike),
          (max min_call_days (m + 1), max_call_days),
          (min_put_strike, u * (999 / 1000)),
          (max min_put_days (m + 1), max_put_days)]))"
| "bounds_of LongStraddle u m av =
     bind_e (ranges av ''PUT'') (\<lambda>(min_put_days, max_put_days, min_put_strike, max_put_strike).
     bind_e (ranges av ''CALL'') (\<lambda>(min_call_days, max_call_days, min_call_strike, max_call_strike).
     Inr [(1, 1000),
          (min_put_strike, max_put_strike),
          (max min_put_days (m + 1), max_put_days),
          (min_call_strike, max_call_strike),
          (max min_call_days (m + 1), max_call_days)]))"

definition bounds :: "OptionsStrategy \<Rightarrow> error + (real \<times> real) list" where
  "bounds s =
     bounds_of (cls s) (underlying_price s) (min_days_to_expiration s) (available_options s)"

text \<open>
  The option types whose catalog entry \<^verbatim>\<open>bounds\<close> of a class reads, and the catalogs on
  which these reads succeed: the type is a key, it has an expiration, and every one of
  its expirations has a strike.
\<close>

fun types_read :: "strategy_class \<Rightarrow> string list" where
  "types_read BullCallSpread = [''CALL'']"
| "types_read BearPutSpread = [''PUT'']"
| "types_read ProtectiveCollar = [''PUT'', ''CALL'']"
| "types_read LongStrangle = [''PUT'', ''CALL'']"
| "types_read LongStraddle = [''PUT'', ''CALL'']"

definition quoted :: "catalog \<Rightarrow> string \<Rightarrow> bool" where
  "quoted av k =
     (case map_of av k of
        None \<Rightarrow> False
      | Some d \<Rightarrow> d \<noteq> [] \<and> list_all (\<lambda>(_, strikes). strikes \<noteq> []) d)"

section \<open>The optimizers (\<^verbatim>\<open>optimizer.py\<close>, \<^verbatim>\<open>util.py\<close>)\<close>

definition convert_action_string_to_flags :: "string \<Rightarrow> int \<times> int" where
  "convert_action_string_to_flags action_string =
     (if action_string = ''buy'' then (1, -1) else (-1, 1))"

text \<open>
  The two functions of the pricing module, as parameters.
  \<^verbatim>\<open>black_scholes_euro_option_price(call_flag, S, K, days, r, sigma)\<close> is a pure function
  of its six arguments. \<^verbatim>\<open>black_scholes_euro_option_price_fixed\<close> takes five or six
  arguments (the sixth, \<^verbatim>\<open>days_forward\<close>, is optional) and returns a function of a
  strike and an expiration.
\<close>

type_synonym pricer = "int \<Rightarrow> real \<Rightarrow> real \<Rightarrow> real \<Rightarrow> real \<Rightarrow> real \<Rightarrow> real"
type_synonym fixed_pricer =
  "int \<Rightarrow> int \<Rightarrow> real \<Rightarrow> real \<Rightarrow> real \<Rightarrow> real option \<Rightarrow> real \<Rightarrow> real \<Rightarrow> real"

text \<open>The attributes every optimizer's \<^verbatim>\<open>__init__\<close> sets.\<close>

record OptimizerBS =
  current_price :: real
  future_price :: real
  days_forward :: real
  sigma :: real
  r :: real
  max_premium :: real
  is_optimized :: bool

text \<open>The two optimizers of one strategy also hold \<^verbatim>\<open>strategy\<close>.\<close>

record SingleOptimizerBS = OptimizerBS +
  strategy :: OptionsStrategy

subsection \<open>\<^verbatim>\<open>StrategyOptimizerBS\<close>\<close>

text \<open>
  The solver's result object, of which the code reads \<^verbatim>\<open>.x\<close> and \<^verbatim>\<open>.fun\<close>, and the
  attribute \<^verbatim>\<open>_optimization_result\<close> that \<^verbatim>\<open>optimize\<close> assigns.
\<close>

record OptimizeResult =
  res_x :: "real list"
  res_fun :: real

record StrategyOptimizerBS = SingleOptimizerBS +
  priv_optimization_result :: "OptimizeResult option"

definition StrategyOptimizerBS_init ::
  "OptionsStrategy \<Rightarrow> real \<Rightarrow> real \<Rightarrow> real \<Rightarrow> real \<Rightarrow> real \<Rightarrow> real \<Rightarrow> StrategyOptimizerBS" where
  "StrategyOptimizerBS_init strat cp fp df sg rt mp =
     \<lparr>current_price = cp, future_price = fp, days_forward = df, sigma = sg, r = rt,
      max_premium = mp, is_optimized = False, strategy = strat,
      priv_optimization_result = None\<rparr>"

text \<open>
  \<^verbatim>\<open>x[1:].reshape(leg_count, 2)\<close>: the rows \<^verbatim>\<open>[K, T]\<close>, or \<^verbatim>\<open>ValueError\<close> when the size is
  not \<^verbatim>\<open>2 * leg_count\<close>.
\<close>

fun rows2 :: "real list \<Rightarrow> (real \<times> real) list" where
  "rows2 (k # t # xs) = (k, t) # rows2 xs"
| "rows2 _ = []"

definition reshape2 :: "nat \<Rightarrow> real list \<Rightarrow> error + (real \<times> real) list" where
  "reshape2 n xs = (if length xs = 2 * n then Inr (rows2 xs) else Inl ValueError)"

text \<open>
  The closures \<^verbatim>\<open>cost_\<close>, \<^verbatim>\<open>revenue_\<close> and \<^verbatim>\<open>neg_profit_\<close> are \<open>cost_fun\<close>, \<open>revenue_fun\<close> and
  \<open>neg_profit_fun\<close>; the first two have the same body over their list of functions.
\<close>

definition cost_fun :: "nat \<Rightarrow> (real \<Rightarrow> real \<Rightarrow> real) list \<Rightarrow> real list \<Rightarrow> error + real" where
  "cost_fun n cost_function_list xs =
     bind_e (reshape2 n (drop 1 xs)) (\<lambda>KT_array.
       case xs of
         [] \<Rightarrow> Inl IndexError
       | q # _ \<Rightarrow> Inr (q * sum_list (map (\<lambda>(f, (k, t)). f k t) (zip cost_function_list KT_array))))"

definition revenue_fun :: "nat \<Rightarrow> (real \<Rightarrow> real \<Rightarrow> real) list \<Rightarrow> real list \<Rightarrow> error + real" where
  "revenue_fun n revenue_function_list xs =
     bind_e (reshape2 n (drop 1 xs)) (\<lambda>KT_array.
       case xs of
         [] \<Rightarrow> Inl IndexError
       | q # _ \<Rightarrow> Inr (q * sum_list (map (\<lambda>(f, (k, t)). f k t) (zip revenue_function_list KT_array))))"

definition neg_profit_fun ::
  "nat \<Rightarrow> (real \<Rightarrow> real \<Rightarrow> real) list \<Rightarrow> (real \<Rightarrow> real \<Rightarrow> real) list \<Rightarrow> real list \<Rightarrow> error + real" where
  "neg_profit_fun n revenue_function_list cost_function_list xs =
     bind_e (revenue_fun n revenue_function_list xs) (\<lambda>R.
     bind_e (cost_fun n cost_function_list xs) (\<lambda>C. Inr (- (R + C))))"

datatype constraint =
    NonlinearConstraint "real list \<Rightarrow> error + real" real real
  | LinearConstraint "real list list" "real list" "real list"

text \<open>
  \<^verbatim>\<open>scipy.optimize.minimize(fun, x0, method='SLSQP', bounds, constraints, options)\<close>, as
  a parameter: from the objective, the initial guess, the bounds and the constraints to
  a result object, or an exception.
\<close>

type_synonym solver =
  "(real list \<Rightarrow> error + real) \<Rightarrow> real list \<Rightarrow> (real \<times> real) list \<Rightarrow> constraint list
     \<Rightarrow> error + OptimizeResult"

definition call_flag_of :: "leg \<Rightarrow> int" where
  "call_flag_of option = (if type option = ''call'' then 1 else -1)"

definition StrategyOptimizerBS_optimize ::
  "fixed_pricer \<Rightarrow> solver \<Rightarrow> heap \<Rightarrow> StrategyOptimizerBS \<Rightarrow> error option \<times> StrategyOptimizerBS" where
  "StrategyOptimizerBS_optimize price_option_fixed minimize h so =
     (let legs = strategy_options h (strategy so);
          cost_function_list =
            map (\<lambda>option.
                   price_option_fixed (fst (convert_action_string_to_flags (action option)))
                     (call_flag_of option) (current_price so) (r so) (sigma so) None) legs;
          revenue_function_list =
            map (\<lambda>option.
                   price_option_fixed (snd (convert_action_string_to_flags (action option)))
                     (call_flag_of option) (future_price so) (r so) (sigma so)
                     (Some (days_forward so))) legs;
          cost = cost_fun (leg_count (strategy so)) cost_function_list;
          func_to_optimize =
            neg_profit_fun (leg_count (strategy so)) revenue_function_list cost_function_list;
          d = definition_of (cls (strategy so));
          constraints =
            [NonlinearConstraint cost (- max_premium so) 100000,
             LinearConstraint (A d) (lower_bound d) (upper_bound d)]
      in case bounds (strategy so) of
           Inl e \<Rightarrow> (Some e, so)
         | Inr bs \<Rightarrow>
             (case minimize func_to_optimize (x0 (strategy so)) bs constraints of
                Inl e \<Rightarrow> (Some e, so)
              | Inr res \<Rightarrow>
                  (None, so\<lparr>priv_optimization_result := Some res, is_optimized := True\<rparr>)))"

definition StrategyOptimizerBS_max_profit :: "StrategyOptimizerBS \<Rightarrow> error + real" where
  "StrategyOptimizerBS_max_profit so =
     (if \<not> is_optimized so then Inl UnoptimizedStrategyOptimizerException
      else case priv_optimization_result so of
             None \<Rightarrow> Inl AttributeError
           | Some res \<Rightarrow> Inr (- res_fun res))"

text \<open>The slices \<^verbatim>\<open>x[1::2]\<close> and \<^verbatim>\<open>x[2::2]\<close> are \<open>every_other (drop 1 x)\<close> and \<open>every_other (drop 2 x)\<close>.\<close>

fun every_other :: "'a list \<Rightarrow> 'a list" where
  "every_other (a # b # xs) = a # every_other xs"
| "every_other xs = xs"

text \<open>
  The loop of \<^verbatim>\<open>best_strategy\<close>: each \<^verbatim>\<open>option\<close> is a dict of the strategy class, and the
  three assignments write into it. \<open>q\<close> is \<^verbatim>\<open>x[0]\<close>.
\<close>

fun write_legs :: "real \<Rightarrow> (addr \<times> real \<times> real) list \<Rightarrow> heap \<Rightarrow> heap" where
  "write_legs q [] h = h"
| "write_legs q ((option, k, t) # rest) h =
     write_legs q rest
       (h(option := (h option)\<lparr>strike := Some k, days_to_expiration := Some t,
                                quantity := Some q\<rparr>))"

text \<open>
  \<^verbatim>\<open>best_strategy\<close> returns a copy of the list \<^verbatim>\<open>options\<close>, whose elements are the same
  dicts: the result is the list of their addresses, with the heap after the writes.
  When \<^verbatim>\<open>x\<close> is empty the \<^verbatim>\<open>zip\<close> is empty and \<^verbatim>\<open>x[0]\<close> is never read.
\<close>

definition StrategyOptimizerBS_best_strategy ::
  "StrategyOptimizerBS \<Rightarrow> heap \<Rightarrow> (error + addr list) \<times> heap" where
  "StrategyOptimizerBS_best_strategy so h =
     (if \<not> is_optimized so then (Inl UnoptimizedStrategyOptimizerException, h)
      else let best_strategy = options (cls (strategy so)) in
        case priv_optimization_result so of
          None \<Rightarrow> (Inl AttributeError, h)
        | Some res \<Rightarrow>
            (case res_x res of
               [] \<Rightarrow> (Inr best_strategy, h)
             | q # _ \<Rightarrow>
                 (Inr best_strategy,
                  write_legs q
                    (zip best_strategy
                       (zip (every_other (drop 1 (res_x res))) (every_other (drop 2 (res_x res)))))
                    h)))"

text \<open>The slice \<^verbatim>\<open>xs[i:j]\<close> of a list, for any two integers.\<close>

definition py_slice :: "'a list \<Rightarrow> int \<Rightarrow> int \<Rightarrow> 'a list" where
  "py_slice xs i j =
     (let n = int (length xs);
          lo = (if i < 0 then max (i + n) 0 else min i n);
          hi = (if j < 0 then max (j + n) 0 else min j n)
      in take (nat (hi - lo)) (drop (nat lo) xs))"

text \<open>
  The loop of \<^verbatim>\<open>get_profit\<close> over the selected dicts; a dict without one of the keys
  \<^verbatim>\<open>strike\<close>, \<^verbatim>\<open>days_to_expiration\<close>, \<^verbatim>\<open>quantity\<close> raises \<^verbatim>\<open>KeyError\<close>.
\<close>

fun profit_loop ::
  "pricer \<Rightarrow> StrategyOptimizerBS \<Rightarrow> real \<Rightarrow> leg list \<Rightarrow> real \<Rightarrow> error + real" where
  "profit_loop price_option so equity_price [] profit = Inr profit"
| "profit_loop price_option so equity_price (option # rest) profit =
     (case (strike option, days_to_expiration option, quantity option) of
        (Some k, Some t, Some q) \<Rightarrow>
          (let action_flag_open = fst (convert_action_string_to_flags (action option));
               action_flag_close = snd (convert_action_string_to_flags (action option));
               call_flag = call_flag_of option;
               premium_open = price_option call_flag (current_price so) k t (r so) (sigma so);
               premium_close =
                 price_option call_flag equity_price k (t - days_forward so) (r so) (sigma so);
               profit1 = profit - q * of_int action_flag_open * premium_open;
               profit2 = profit1 - q * of_int action_flag_close * premium_close
           in profit_loop price_option so equity_price rest profit2)
      | _ \<Rightarrow> Inl KeyError)"

text \<open>
  \<^verbatim>\<open>get_profit(equity_price, leg=None)\<close>. \<open>leg\<close> is \<open>None\<close> or an integer; it is truthy when
  it is a nonzero integer.
\<close>

definition get_profit ::
  "pricer \<Rightarrow> StrategyOptimizerBS \<Rightarrow> heap \<Rightarrow> real \<Rightarrow> int option \<Rightarrow> (error + real) \<times> heap" where
  "get_profit price_option so h equity_price leg =
     (if \<not> is_optimized so then (Inl UnoptimizedStrategyOptimizerException, h)
      else case StrategyOptimizerBS_best_strategy so h of
             (Inl e, h') \<Rightarrow> (Inl e, h')
           | (Inr best_strategy, h') \<Rightarrow>
               (let options =
                      (case leg of
                         None \<Rightarrow> best_strategy
                       | Some l \<Rightarrow>
                           if l \<noteq> 0 then py_slice best_strategy (l - 1) l else best_strategy)
                in (profit_loop price_option so equity_price (map h' options) 0, h')))"

subsection \<open>\<^verbatim>\<open>ParallelStrategyOptimizerBS\<close>\<close>

text \<open>
  The object holds one \<^verbatim>\<open>StrategyOptimizerBS\<close> per strategy. Its three reads are
  modelled; each tests \<^verbatim>\<open>is_optimized\<close> first.
\<close>

record ParallelStrategyOptimizerBS = OptimizerBS +
  strategies :: "OptionsStrategy list"
  priv_strategy_optimizers :: "StrategyOptimizerBS list"

definition ParallelStrategyOptimizerBS_init ::
  "OptionsStrategy list \<Rightarrow> real \<Rightarrow> real \<Rightarrow> real \<Rightarrow> real \<Rightarrow> real \<Rightarrow> real
     \<Rightarrow> ParallelStrategyOptimizerBS" where
  "ParallelStrategyOptimizerBS_init strats cp fp df sg rt mp =
     \<lparr>current_price = cp, future_price = fp, days_forward = df, sigma = sg, r = rt,
      max_premium = mp, is_optimized = False,
      strategies = strats,
      priv_strategy_optimizers =
        map (\<lambda>strat. StrategyOptimizerBS_init strat cp fp df sg rt mp) strats\<rparr>"

definition ParallelStrategyOptimizerBS_max_profit ::
  "ParallelStrategyOptimizerBS \<Rightarrow> error + real" where
  "ParallelStrategyOptimizerBS_max_profit po =
     (if \<not> is_optimized po then Inl UnoptimizedStrategyOptimizerException
      else bind_e (map_e StrategyOptimizerBS_max_profit (priv_strategy_optimizers po)) py_max)"

text \<open>\<^verbatim>\<open>max(list, key=...)\<close>: the first element with the greatest key.\<close>

fun max_by :: "('a \<times> real) \<Rightarrow> ('a \<times> real) list \<Rightarrow> 'a" where
  "max_by (b, kb) [] = b"
| "max_by (b, kb) ((c, kc) # rest) = (if kc > kb then max_by (c, kc) rest else max_by (b, kb) rest)"

definition ParallelStrategyOptimizerBS_best_strategy ::
  "ParallelStrategyOptimizerBS \<Rightarrow> heap \<Rightarrow> (error + addr list) \<times> heap" where
  "ParallelStrategyOptimizerBS_best_strategy po h =
     (if \<not> is_optimized po then (Inl UnoptimizedStrategyOptimizerException, h)
      else case map_e (\<lambda>opt. bind_e (StrategyOptimizerBS_max_profit opt) (\<lambda>k. Inr (opt, k)))
                  (priv_strategy_optimizers po) of
             Inl e \<Rightarrow> (Inl e, h)
           | Inr [] \<Rightarrow> (Inl ValueError, h)
           | Inr (first # rest) \<Rightarrow> StrategyOptimizerBS_best_strategy (max_by first rest) h)"

fun name :: "strategy_class \<Rightarrow> string" where
  "name BullCallSpread = ''BullCallSpread''"
| "name BearPutSpread = ''BearPutSpread''"
| "name ProtectiveCollar = ''ProtectiveCollar''"
| "name LongStrangle = ''LongStrangle''"
| "name LongStraddle = ''LongStraddle''"

text \<open>
  The dict comprehension of \<^verbatim>\<open>get_optimized_strategies\<close>, one optimizer after the other:
  a later optimizer of the same strategy name replaces the earlier entry.
\<close>

fun optimized_entries ::
  "StrategyOptimizerBS list \<Rightarrow> (string \<rightharpoonup> real \<times> addr list) \<Rightarrow> heap
     \<Rightarrow> (error + (string \<rightharpoonup> real \<times> addr list)) \<times> heap" where
  "optimized_entries [] d h = (Inr d, h)"
| "optimized_entries (opt # rest) d h =
     (case StrategyOptimizerBS_max_profit opt of
        Inl e \<Rightarrow> (Inl e, h)
      | Inr m \<Rightarrow>
          (case StrategyOptimizerBS_best_strategy opt h of
             (Inl e, h') \<Rightarrow> (Inl e, h')
           | (Inr b, h') \<Rightarrow>
               optimized_entries rest (d(name (cls (strategy opt)) \<mapsto> (m, b))) h'))"

definition get_optimized_strategies ::
  "ParallelStrategyOptimizerBS \<Rightarrow> heap \<Rightarrow> (error + (string \<rightharpoonup> real \<times> addr list)) \<times> heap" where
  "get_optimized_strategies po h =
     (if \<not> is_optimized po then (Inl UnoptimizedStrategyOptimizerException, h)
      else optimized_entries (priv_strategy_optimizers po) Map.empty h)"

subsection \<open>\<^verbatim>\<open>GridSearchBS\<close>\<close>

text \<open>
  \<^verbatim>\<open>__init__\<close> sets the common attributes and \<^verbatim>\<open>strategy\<close>. \<^verbatim>\<open>_max_profit\<close>, \<^verbatim>\<open>_opt_strategy\<close> and
  \<^verbatim>\<open>_quantity\<close> exist only once \<^verbatim>\<open>optimize\<close> has assigned them.
\<close>

text \<open>A candidate \<^verbatim>\<open>[call_flag, buy_flag, strikes, days]\<close>.\<close>

type_synonym candidate = "int \<times> int \<times> real \<times> real"

record GridSearchBS = SingleOptimizerBS +
  priv_max_profit :: "real option"
  priv_opt_strategy :: "candidate list option"
  priv_quantity :: "real option"

definition GridSearchBS_init ::
  "OptionsStrategy \<Rightarrow> real \<Rightarrow> real \<Rightarrow> real \<Rightarrow> real \<Rightarrow> real \<Rightarrow> real \<Rightarrow> GridSearchBS" where
  "GridSearchBS_init strat cp fp df sg rt mp =
     \<lparr>current_price = cp, future_price = fp, days_forward = df, sigma = sg, r = rt,
      max_premium = mp, is_optimized = False, strategy = strat,
      priv_max_profit = None, priv_opt_strategy = None, priv_quantity = None\<rparr>"

text \<open>
  The four lists \<^verbatim>\<open>call_buy\<close>, \<^verbatim>\<open>call_sell\<close>, \<^verbatim>\<open>put_buy\<close>, \<^verbatim>\<open>put_sell\<close>. \<^verbatim>\<open>combos\<close> holds
  references to them, not copies, so it is a list of list names that is resolved
  after the loop over the legs.
\<close>

record lists4 =
  call_buy :: "candidate list"
  call_sell :: "candidate list"
  put_buy :: "candidate list"
  put_sell :: "candidate list"

datatype list_ref = CallBuy | CallSell | PutBuy | PutSell

fun deref :: "lists4 \<Rightarrow> list_ref \<Rightarrow> candidate list" where
  "deref ls CallBuy = call_buy ls"
| "deref ls CallSell = call_sell ls"
| "deref ls PutBuy = put_buy ls"
| "deref ls PutSell = put_sell ls"

fun extend :: "list_ref \<Rightarrow> candidate list \<Rightarrow> lists4 \<Rightarrow> lists4" where
  "extend CallBuy cs ls = ls\<lparr>call_buy := call_buy ls @ cs\<rparr>"
| "extend CallSell cs ls = ls\<lparr>call_sell := call_sell ls @ cs\<rparr>"
| "extend PutBuy cs ls = ls\<lparr>put_buy := put_buy ls @ cs\<rparr>"
| "extend PutSell cs ls = ls\<lparr>put_sell := put_sell ls @ cs\<rparr>"

definition buy_flag_of :: "leg \<Rightarrow> int" where
  "buy_flag_of option = (if action option = ''buy'' then 1 else -1)"

text \<open>
  What the three inner loops append for one \<^verbatim>\<open>option\<close>, in order: for each catalog key
  whose lower case is the option's type, for each of its days, for each strike.
\<close>

definition leg_candidates :: "catalog \<Rightarrow> leg \<Rightarrow> candidate list" where
  "leg_candidates av option =
     concat (map (\<lambda>(available, by_days).
                    if type option = lower available
                    then concat (map (\<lambda>(days, strikes_list).
                                        map (\<lambda>strikes. (call_flag_of option, buy_flag_of option, strikes, days))
                                            strikes_list) by_days)
                    else []) av)"

text \<open>The list the inner loops append to, and the list \<^verbatim>\<open>combos.append\<close> takes.\<close>

definition appended_to :: "leg \<Rightarrow> list_ref" where
  "appended_to option =
     (if type option = ''call''
      then (if action option = ''buy'' then CallBuy else CallSell)
      else (if action option = ''buy'' then PutBuy else PutSell))"

definition combo_ref :: "leg \<Rightarrow> list_ref" where
  "combo_ref option =
     (if type option = ''call'' \<and> action option = ''buy'' then CallBuy
      else if type option = ''call'' \<and> action option = ''sell'' then CallSell
      else if type option = ''put'' \<and> action option = ''buy'' then PutBuy
      else PutSell)"

fun build :: "catalog \<Rightarrow> leg list \<Rightarrow> lists4 \<times> list_ref list \<Rightarrow> lists4 \<times> list_ref list" where
  "build av [] st = st"
| "build av (option # rest) (ls, combos) =
     build av rest
       (extend (appended_to option) (leg_candidates av option) ls, combos @ [combo_ref option])"

text \<open>\<^verbatim>\<open>itertools.product(*combos)\<close>: the last list varies fastest.\<close>

fun itertools_product :: "'a list list \<Rightarrow> 'a list list" where
  "itertools_product [] = [[]]"
| "itertools_product (xs # xss) =
     concat (map (\<lambda>x. map (\<lambda>rest. x # rest) (itertools_product xss)) xs)"

definition strats :: "catalog \<Rightarrow> leg list \<Rightarrow> candidate list list" where
  "strats av legs =
     (case build av legs
             (\<lparr>call_buy = [], call_sell = [], put_buy = [], put_sell = []\<rparr>, []) of
        (ls, combos) \<Rightarrow> itertools_product (map (deref ls) combos))"

text \<open>The two sums of the inner loop over the legs of one combination.\<close>

definition leg_profit :: "pricer \<Rightarrow> GridSearchBS \<Rightarrow> candidate \<Rightarrow> real" where
  "leg_profit price_option g lg =
     (case lg of (call_flag, buy_flag, strikes, days) \<Rightarrow>
        max 0 (future_price g - strikes)
        - price_option call_flag (current_price g) strikes days (r g) (sigma g)
          * (1 + r g) * of_int buy_flag)"

definition leg_premium :: "pricer \<Rightarrow> GridSearchBS \<Rightarrow> candidate \<Rightarrow> real" where
  "leg_premium price_option g lg =
     (case lg of (call_flag, buy_flag, strikes, days) \<Rightarrow>
        price_option call_flag (current_price g) strikes days (r g) (sigma g) * of_int buy_flag)"

definition profit_of :: "pricer \<Rightarrow> GridSearchBS \<Rightarrow> candidate list \<Rightarrow> real" where
  "profit_of price_option g s =
     foldl (\<lambda>profit lg. profit + leg_profit price_option g lg) 0 s"

definition premium_of :: "pricer \<Rightarrow> GridSearchBS \<Rightarrow> candidate list \<Rightarrow> real" where
  "premium_of price_option g s =
     foldl (\<lambda>premium lg. premium - leg_premium price_option g lg) 0 s"

text \<open>The loop over \<^verbatim>\<open>strats\<close>; the state is (\<^verbatim>\<open>max_profit\<close>, \<^verbatim>\<open>opt_strategy\<close>, \<^verbatim>\<open>cost\<close>).\<close>

fun scan ::
  "pricer \<Rightarrow> GridSearchBS \<Rightarrow> candidate list list \<Rightarrow> real \<times> candidate list \<times> real
     \<Rightarrow> real \<times> candidate list \<times> real" where
  "scan price_option g [] st = st"
| "scan price_option g (s # rest) (max_profit, opt_strategy, cost) =
     (if profit_of price_option g s > max_profit
      then scan price_option g rest (profit_of price_option g s, s, premium_of price_option g s)
      else scan price_option g rest (max_profit, opt_strategy, cost))"

text \<open>
  \<^verbatim>\<open>optimize\<close> assigns \<^verbatim>\<open>is_optimized\<close>, \<^verbatim>\<open>_max_profit\<close> and \<^verbatim>\<open>_opt_strategy\<close>, and then
  divides by \<^verbatim>\<open>cost\<close> for \<^verbatim>\<open>_quantity\<close>: when \<^verbatim>\<open>cost\<close> is zero the division raises and
  the first three assignments stay.
\<close>

definition GridSearchBS_optimize ::
  "pricer \<Rightarrow> heap \<Rightarrow> GridSearchBS \<Rightarrow> error option \<times> GridSearchBS" where
  "GridSearchBS_optimize price_option h g =
     (case scan price_option g
             (strats (available_options (strategy g)) (strategy_options h (strategy g)))
             (0, [], 0) of
        (max_profit, opt_strategy, cost) \<Rightarrow>
          (let g1 = g\<lparr>is_optimized := True, priv_max_profit := Some max_profit,
                      priv_opt_strategy := Some opt_strategy\<rparr>
           in if cost = 0 then (Some ZeroDivisionError, g1)
              else (None, g1\<lparr>priv_quantity := Some \<bar>max_premium g / cost\<bar>\<rparr>)))"

text \<open>Both properties read their private attributes before they test \<^verbatim>\<open>is_optimized\<close>.\<close>

definition GridSearchBS_max_profit :: "GridSearchBS \<Rightarrow> error + real" where
  "GridSearchBS_max_profit g =
     (case priv_max_profit g of
        None \<Rightarrow> Inl AttributeError
      | Some max_profit \<Rightarrow>
          if \<not> is_optimized g then Inl UnoptimizedStrategyOptimizerException
          else Inr max_profit)"

definition GridSearchBS_best_strategy :: "GridSearchBS \<Rightarrow> error + leg list" where
  "GridSearchBS_best_strategy g =
     (case priv_opt_strategy g of
        None \<Rightarrow> Inl AttributeError
      | Some opt_strategy \<Rightarrow>
          (case priv_quantity g of
             None \<Rightarrow> Inl AttributeError
           | Some q \<Rightarrow>
               if \<not> is_optimized g then Inl UnoptimizedStrategyOptimizerException
               else Inr (map (\<lambda>(call_flag, buy_flag, strikes, days).
                                \<lparr>type = (if call_flag = 1 then ''call'' else ''put''),
                                 action = (if buy_flag = 1 then ''buy'' else ''sell''),
                                 strike = Some strikes, days_to_expiration = Some days,
                                 quantity = Some q\<rparr>) opt_strategy)))"

section \<open>Predicates used in the statements\<close>

text \<open>
  A leg as every strategy class declares it: a call or a put, bought or sold. On such
  legs the two chains of tests in \<^verbatim>\<open>GridSearchBS.optimize\<close> (\<open>appended_to\<close> and
  \<open>combo_ref\<close>) pick the same list.
\<close>

definition well_formed_leg :: "leg \<Rightarrow> bool" where
  "well_formed_leg option =
     ((type option = ''call'' \<or> type option = ''put'')
      \<and> (action option = ''buy'' \<or> action option = ''sell''))"



section \<open>Stand-ins for the parameters, for evaluation at concrete inputs\<close>

text \<open>
  The theorems below hold for every pricing function and every solver. A closed example
  needs concrete ones. \<open>sample_price\<close> is the intrinsic value plus one cent per day,
  \<open>sample_price_fixed\<close> is the same price at the remaining time and scaled by the
  action flag, and \<open>sample_minimize\<close> is a solver that stops at its initial guess.
\<close>

definition sample_price :: pricer where
  "sample_price call_flag S K T rate vol = max 0 (of_int call_flag * (S - K)) + T / 100"

definition sample_price_fixed :: fixed_pricer where
  "sample_price_fixed action_flag call_flag S rate vol elapsed K T =
     of_int action_flag
     * sample_price call_flag S K (T - (case elapsed of None \<Rightarrow> 0 | Some d \<Rightarrow> d)) rate vol"

definition sample_minimize :: solver where
  "sample_minimize f guess bs cs =
     (case f guess of Inl e \<Rightarrow> Inl e | Inr v \<Rightarrow> Inr \<lparr>res_x = guess, res_fun = v\<rparr>)"

section \<open>Concrete inputs\<close>

text \<open>
  A catalog in the shape of the one the repository's tests use, the bull call spread
  of \<^verbatim>\<open>testBullCallSpread\<close> over it, and the two optimizers of that strategy with the
  test's market parameters (current price 100, predicted price 105, 30 days forward,
  volatility 0.25, rate 0.01, budget 100).
\<close>

definition test_catalog :: catalog where
  "test_catalog =
     [(''CALL'', [(30, [5, 50, 100, 150, 200]), (60, [5, 50, 100, 150, 200])]),
      (''PUT'', [(30, [5, 50, 100, 150, 200]), (60, [5, 50, 100, 150, 200])])]"

definition bull_call_spread_test :: OptionsStrategy where
  "bull_call_spread_test =
     \<lparr>cls = BullCallSpread, underlying_price = 100, min_days_to_expiration = 30,
      available_options = test_catalog\<rparr>"


definition optimizer_test :: StrategyOptimizerBS where
  "optimizer_test =
     StrategyOptimizerBS_init bull_call_spread_test 100 105 30 (1 / 4) (1 / 100) 100"

text \<open>A second bull call spread, on an underlying at 150, and its optimizer.\<close>

definition bull_call_spread_other :: OptionsStrategy where
  "bull_call_spread_other =
     \<lparr>cls = BullCallSpread, underlying_price = 150, min_days_to_expiration = 40,
      available_options = test_catalog\<rparr>"

definition optimizer_other :: StrategyOptimizerBS where
  "optimizer_other =
     StrategyOptimizerBS_init bull_call_spread_other 150 160 40 (1 / 4) (1 / 100) 500"

text \<open>
  The two optimizers after \<^verbatim>\<open>optimize\<close>, run with the stand-in pricing and the solver
  that stops at the initial guess.
\<close>

definition optimized_test :: StrategyOptimizerBS where
  "optimized_test =
     snd (StrategyOptimizerBS_optimize sample_price_fixed sample_minimize module_heap
            optimizer_test)"

definition optimized_other :: StrategyOptimizerBS where
  "optimized_other =
     snd (StrategyOptimizerBS_optimize sample_price_fixed sample_minimize module_heap
            optimizer_other)"



text \<open>
  A bull call spread over a catalog with a single call: the one candidate buys and
  sells the same option, so its premium is zero and its profit is positive.
\<close>

definition grid_zero_premium :: GridSearchBS where
  "grid_zero_premium =
     GridSearchBS_init
       \<lparr>cls = BullCallSpread, underlying_price = 100, min_days_to_expiration = 30,
        available_options = [(''CALL'', [(30, [100])])]\<rparr>
       100 105 30 (1 / 4) (1 / 100) 100"

section \<open>Theorems\<close>

subsection \<open>The error monad and the builtins\<close>

lemma bind_e_Inr [simp]: "bind_e (Inr v) f = f v"
  by (simp add: bind_e_def)

lemma bind_e_Inl [simp]: "bind_e (Inl e) f = Inl e"
  by (simp add: bind_e_def)

lemma map_e_total:
  assumes "\<And>x. x \<in> set xs \<Longrightarrow> \<exists>y. f x = Inr y"
  shows "\<exists>ys. map_e f xs = Inr ys"
  using assms
proof (induction xs)
  case Nil
  show ?case by simp
next
  case (Cons x xs)
  from Cons.prems obtain y where y: "f x = Inr y" by auto
  from Cons obtain ys where "map_e f xs = Inr ys" by auto
  with y show ?case by simp
qed

lemma map_e_length: "map_e f xs = Inr ys \<Longrightarrow> length ys = length xs"
proof (induction xs arbitrary: ys)
  case Nil
  then show ?case by simp
next
  case (Cons x xs)
  then show ?case
    by (auto simp: bind_e_def split: sum.splits)
qed

lemma py_min_total: "xs \<noteq> [] \<Longrightarrow> \<exists>v. py_min xs = Inr v"
  by (cases xs) (simp_all add: py_min_def)

lemma py_max_total: "xs \<noteq> [] \<Longrightarrow> \<exists>v. py_max xs = Inr v"
  by (cases xs) (simp_all add: py_max_def)

subsection \<open>Strategies: the lengths of \<^verbatim>\<open>x0\<close> and \<^verbatim>\<open>bounds\<close>\<close>

lemma ranges_total:
  assumes "quoted av k"
  shows "\<exists>a b c d. ranges av k = Inr (a, b, c, d)"
proof -
  from assms obtain d where d: "map_of av k = Some d" "d \<noteq> []"
    "list_all (\<lambda>(_, strikes). strikes \<noteq> []) d"
    by (auto simp: quoted_def split: option.splits)
  have g: "getitem av k = Inr d" using d(1) by (simp add: getitem_def)
  from d(2) obtain lo where lo: "py_min (map fst d) = Inr lo"
    using py_min_total[of "map fst d"] by auto
  from d(2) obtain hi where hi: "py_max (map fst d) = Inr hi"
    using py_max_total[of "map fst d"] by auto
  have "\<exists>ys. map_e (\<lambda>(_, strikes). py_min strikes) d = Inr ys"
    using d(3) by (intro map_e_total) (auto simp: list_all_iff dest: py_min_total)
  then obtain los where los: "map_e (\<lambda>(_, strikes). py_min strikes) d = Inr los" ..
  have "\<exists>ys. map_e (\<lambda>(_, strikes). py_max strikes) d = Inr ys"
    using d(3) by (intro map_e_total) (auto simp: list_all_iff dest: py_max_total)
  then obtain his where his: "map_e (\<lambda>(_, strikes). py_max strikes) d = Inr his" ..
  have "los \<noteq> []" using map_e_length[OF los] d(2) by auto
  then obtain ml where ml: "py_min los = Inr ml" using py_min_total by blast
  have "his \<noteq> []" using map_e_length[OF his] d(2) by auto
  then obtain mh where mh: "py_max his = Inr mh" using py_max_total by blast
  show ?thesis
    by (simp add: ranges_def g lo hi los his ml mh)
qed

lemma length_x0: "length (x0 s) = 1 + 2 * leg_count s"
  by (cases "cls s") (simp_all add: x0_def leg_count_def)

lemma bounds_length: "bounds s = Inr bs \<Longrightarrow> length bs = 1 + 2 * leg_count s"
  by (cases "cls s")
     (auto simp: bounds_def leg_count_def bind_e_def split: sum.splits prod.splits)

text \<open>
  Claim C9, as amended. For each of the five strategies and any current price and
  minimum-days floor: when every option type that the strategy's \<^verbatim>\<open>bounds\<close> reads is a
  key of the catalog with at least one expiration, each with at least one strike, then
  \<^verbatim>\<open>bounds\<close> returns and \<^verbatim>\<open>len(x0) == len(bounds) == 1 + 2*leg_count\<close>.
\<close>

theorem C9_lengths:
  assumes "list_all (quoted (available_options s)) (types_read (cls s))"
  shows "\<exists>bs. bounds s = Inr bs \<and> length (x0 s) = length bs
               \<and> length bs = 1 + 2 * leg_count s"
proof -
  have "\<exists>bs. bounds s = Inr bs"
  proof (cases "cls s")
    case BullCallSpread
    with assms obtain a b c d where "ranges (available_options s) ''CALL'' = Inr (a, b, c, d)"
      using ranges_total[of "available_options s" "''CALL''"] by auto
    with BullCallSpread show ?thesis by (simp add: bounds_def)
  next
    case BearPutSpread
    with assms obtain a b c d where "ranges (available_options s) ''PUT'' = Inr (a, b, c, d)"
      using ranges_total[of "available_options s" "''PUT''"] by auto
    with BearPutSpread show ?thesis by (simp add: bounds_def)
  next
    case ProtectiveCollar
    with assms obtain a b c d a' b' c' d' where
      "ranges (available_options s) ''PUT'' = Inr (a, b, c, d)"
      "ranges (available_options s) ''CALL'' = Inr (a', b', c', d')"
      using ranges_total[of "available_options s" "''PUT''"]
        ranges_total[of "available_options s" "''CALL''"] by auto
    with ProtectiveCollar show ?thesis by (simp add: bounds_def)
  next
    case LongStrangle
    with assms obtain a b c d a' b' c' d' where
      "ranges (available_options s) ''PUT'' = Inr (a, b, c, d)"
      "ranges (available_options s) ''CALL'' = Inr (a', b', c', d')"
      using ranges_total[of "available_options s" "''PUT''"]
        ranges_total[of "available_options s" "''CALL''"] by auto
    with LongStrangle show ?thesis by (simp add: bounds_def)
  next
    case LongStraddle
    with assms obtain a b c d a' b' c' d' where
      "ranges (available_options s) ''PUT'' = Inr (a, b, c, d)"
      "ranges (available_options s) ''CALL'' = Inr (a', b', c', d')"
      using ranges_total[of "available_options s" "''PUT''"]
        ranges_total[of "available_options s" "''CALL''"] by auto
    with LongStraddle show ?thesis by (simp add: bounds_def)
  qed
  then obtain bs where bs: "bounds s = Inr bs" ..
  with bounds_length[OF bs] length_x0[of s] show ?thesis by simp
qed

text \<open>The witness of C9: the long straddle over the test catalog.\<close>

theorem C9_lengths_witness:
  "list_all (quoted test_catalog) (types_read LongStraddle)
   \<and> (\<exists>bs. bounds \<lparr>cls = LongStraddle, underlying_price = 100, min_days_to_expiration = 30,
                     available_options = test_catalog\<rparr> = Inr bs
            \<and> length (x0 \<lparr>cls = LongStraddle, underlying_price = 100, min_days_to_expiration = 30,
                     available_options = test_catalog\<rparr>) = length bs
            \<and> length bs = 1 + 2 * leg_count \<lparr>cls = LongStraddle, underlying_price = 100,
                     min_days_to_expiration = 30, available_options = test_catalog\<rparr>)"
proof -
  have h: "list_all (quoted test_catalog) (types_read LongStraddle)"
    by (simp add: quoted_def test_catalog_def)
  show ?thesis
    using h C9_lengths[of "\<lparr>cls = LongStraddle, underlying_price = 100, min_days_to_expiration = 30,
                     available_options = test_catalog\<rparr>"]
    by simp
qed

text \<open>
  The counterexample to C9 as stated: a non-empty catalog with both keys, in which
  \<^verbatim>\<open>'PUT'\<close> has no expiration. \<^verbatim>\<open>bounds\<close> of the long straddle raises \<^verbatim>\<open>ValueError\<close>
  (\<^verbatim>\<open>min\<close> of an empty sequence), so it has no length.
\<close>

theorem C9_bounds_raises_counterexample:
  "bounds \<lparr>cls = LongStraddle, underlying_price = 100, min_days_to_expiration = 30,
           available_options = [(''CALL'', [(30, [100])]), (''PUT'', [])]\<rparr> = Inl ValueError"
  by (simp add: bounds_def ranges_def getitem_def py_min_def py_max_def)

subsection \<open>Reads before \<^verbatim>\<open>optimize\<close>\<close>

text \<open>
  Claim C1 at the input where the code departs from it: on a \<^verbatim>\<open>GridSearchBS\<close> fresh from
  its constructor, \<^verbatim>\<open>max_profit\<close> and \<^verbatim>\<open>best_strategy\<close> raise \<^verbatim>\<open>AttributeError\<close>, not
  \<^verbatim>\<open>UnoptimizedStrategyOptimizerException\<close>: each reads its private attribute before
  it tests \<^verbatim>\<open>is_optimized\<close>.
\<close>

theorem C1_GridSearchBS_reads_before_optimize:
  "GridSearchBS_max_profit (GridSearchBS_init strat cp fp df sg rt mp) = Inl AttributeError
   \<and> GridSearchBS_best_strategy (GridSearchBS_init strat cp fp df sg rt mp) = Inl AttributeError"
  by (simp add: GridSearchBS_max_profit_def GridSearchBS_best_strategy_def GridSearchBS_init_def)

text \<open>The other two classes test \<^verbatim>\<open>is_optimized\<close> first and raise the intended exception.\<close>

lemma StrategyOptimizerBS_reads_before_optimize:
  "StrategyOptimizerBS_max_profit (StrategyOptimizerBS_init strat cp fp df sg rt mp)
     = Inl UnoptimizedStrategyOptimizerException"
  "StrategyOptimizerBS_best_strategy (StrategyOptimizerBS_init strat cp fp df sg rt mp) h
     = (Inl UnoptimizedStrategyOptimizerException, h)"
  "get_profit p (StrategyOptimizerBS_init strat cp fp df sg rt mp) h e l
     = (Inl UnoptimizedStrategyOptimizerException, h)"
  by (simp_all add: StrategyOptimizerBS_max_profit_def StrategyOptimizerBS_best_strategy_def
      get_profit_def StrategyOptimizerBS_init_def)

lemma ParallelStrategyOptimizerBS_reads_before_optimize:
  "ParallelStrategyOptimizerBS_max_profit (ParallelStrategyOptimizerBS_init ss cp fp df sg rt mp)
     = Inl UnoptimizedStrategyOptimizerException"
  "ParallelStrategyOptimizerBS_best_strategy (ParallelStrategyOptimizerBS_init ss cp fp df sg rt mp) h
     = (Inl UnoptimizedStrategyOptimizerException, h)"
  "get_optimized_strategies (ParallelStrategyOptimizerBS_init ss cp fp df sg rt mp) h
     = (Inl UnoptimizedStrategyOptimizerException, h)"
  by (simp_all add: ParallelStrategyOptimizerBS_max_profit_def
      ParallelStrategyOptimizerBS_best_strategy_def get_optimized_strategies_def
      ParallelStrategyOptimizerBS_init_def)
subsection \<open>The grid search\<close>

















subsection \<open>The grid search at the concrete inputs\<close>

text \<open>The definitions the simplifier unfolds to run \<^verbatim>\<open>GridSearchBS.optimize\<close>.\<close>

lemmas grid_eval = GridSearchBS_optimize_def GridSearchBS_init_def strats_def
  strategy_options_def module_heap_def new_leg_def leg_candidates_def
  appended_to_def combo_ref_def call_flag_of_def buy_flag_of_def lower_def lower_char_def
  profit_of_def premium_of_def leg_profit_def leg_premium_def sample_price_def



lemma grid_zero_premium_run:
  "GridSearchBS_optimize sample_price module_heap grid_zero_premium
     = (Some ZeroDivisionError,
        grid_zero_premium\<lparr>is_optimized := True, priv_max_profit := Some 10,
                         priv_opt_strategy := Some [(1, 1, 100, 30), (1, - 1, 100, 30)]\<rparr>)"
  by (simp add: grid_eval grid_zero_premium_def)



subsection \<open>The grid search: the stored maximum, the degenerate cases, the quantity\<close>









subsection \<open>The continuous optimizer: \<^verbatim>\<open>best_strategy\<close> and \<^verbatim>\<open>get_profit\<close>\<close>

text \<open>
  The heap after the loop of \<^verbatim>\<open>best_strategy\<close>: a dict carries the values of the last
  write to it, and its other keys are as before.
\<close>

lemma write_legs_apply:
  "write_legs q ws h a =
     (case map_of (rev ws) a of
        None \<Rightarrow> h a
      | Some (k, t) \<Rightarrow>
          (h a)\<lparr>strike := Some k, days_to_expiration := Some t, quantity := Some q\<rparr>)"
proof (induction ws arbitrary: h)
  case Nil
  show ?case by simp
next
  case (Cons w rest)
  obtain a0 k t where w: "w = (a0, k, t)" by (cases w) auto
  show ?case
    unfolding w by (simp add: Cons.IH map_add_def split: option.splits)
qed

lemma write_legs_idem: "write_legs q ws (write_legs q ws h) = write_legs q ws h"
proof
  fix a
  show "write_legs q ws (write_legs q ws h) a = write_legs q ws h a"
    by (simp add: write_legs_apply[of q ws "write_legs q ws h"] write_legs_apply[of q ws h]
        split: option.splits)
qed

lemma best_strategy_idem:
  "StrategyOptimizerBS_best_strategy so (snd (StrategyOptimizerBS_best_strategy so h))
     = StrategyOptimizerBS_best_strategy so h"
  by (simp add: StrategyOptimizerBS_best_strategy_def Let_def write_legs_idem
      split: option.splits list.splits)

lemma get_profit_heap:
  "snd (get_profit p so h e l)
     = (if is_optimized so then snd (StrategyOptimizerBS_best_strategy so h) else h)"
proof (cases "is_optimized so")
  case False
  then show ?thesis by (simp add: get_profit_def)
next
  case True
  obtain x h' where b: "StrategyOptimizerBS_best_strategy so h = (x, h')"
    by (cases "StrategyOptimizerBS_best_strategy so h") auto
  with True show ?thesis
    by (cases x) (simp_all add: get_profit_def Let_def)
qed

text \<open>
  Claim C8. A second call of \<^verbatim>\<open>get_profit\<close> with the same arguments, on the heap the
  first call leaves, returns the same result and leaves the same heap: the call
  rewrites the leg dicts with the values of the stored solver result and reads them
  back.
\<close>

theorem C8_get_profit_twice:
  "get_profit p so (snd (get_profit p so h e l)) e l = get_profit p so h e l"
proof (cases "is_optimized so")
  case False
  then show ?thesis by (simp add: get_profit_def)
next
  case True
  then have hp: "snd (get_profit p so h e l) = snd (StrategyOptimizerBS_best_strategy so h)"
    by (simp add: get_profit_heap)
  show ?thesis
    unfolding hp using True by (simp add: get_profit_def best_strategy_idem)
qed




subsection \<open>The continuous optimizer at the concrete inputs\<close>

text \<open>The definitions the simplifier unfolds to run \<^verbatim>\<open>StrategyOptimizerBS.optimize\<close>.\<close>

lemmas optimizer_eval = StrategyOptimizerBS_optimize_def StrategyOptimizerBS_init_def
  strategy_options_def module_heap_def new_leg_def leg_count_def bounds_def ranges_def
  getitem_def py_min_def py_max_def x0_def sample_minimize_def neg_profit_fun_def
  revenue_fun_def cost_fun_def reshape2_def convert_action_string_to_flags_def call_flag_of_def
  sample_price_fixed_def sample_price_def test_catalog_def

lemma optimized_test_eq:
  "StrategyOptimizerBS_optimize sample_price_fixed sample_minimize module_heap optimizer_test
     = (None, optimizer_test\<lparr>priv_optimization_result :=
                                 Some \<lparr>res_x = [1, 99, 31, 101, 31], res_fun = 1\<rparr>,
                               is_optimized := True\<rparr>)"
  by (simp add: optimizer_eval optimizer_test_def bull_call_spread_test_def)

lemma optimized_other_eq:
  "StrategyOptimizerBS_optimize sample_price_fixed sample_minimize module_heap optimizer_other
     = (None, optimizer_other\<lparr>priv_optimization_result :=
                                  Some \<lparr>res_x = [1, 149, 41, 151, 41], res_fun = 1\<rparr>,
                                is_optimized := True\<rparr>)"
  by (simp add: optimizer_eval optimizer_other_def bull_call_spread_other_def)

lemma optimized_test_val:
  "optimized_test =
     \<lparr>current_price = 100, future_price = 105, days_forward = 30, sigma = 1 / 4, r = 1 / 100,
      max_premium = 100, is_optimized = True, strategy = bull_call_spread_test,
      priv_optimization_result = Some \<lparr>res_x = [1, 99, 31, 101, 31], res_fun = 1\<rparr>\<rparr>"
proof -
  have "optimized_test
          = optimizer_test\<lparr>priv_optimization_result :=
                             Some \<lparr>res_x = [1, 99, 31, 101, 31], res_fun = 1\<rparr>,
                           is_optimized := True\<rparr>"
    by (simp add: optimized_test_def optimized_test_eq)
  then show ?thesis by (simp add: optimizer_test_def StrategyOptimizerBS_init_def)
qed

lemma optimized_other_val:
  "optimized_other =
     \<lparr>current_price = 150, future_price = 160, days_forward = 40, sigma = 1 / 4, r = 1 / 100,
      max_premium = 500, is_optimized = True, strategy = bull_call_spread_other,
      priv_optimization_result = Some \<lparr>res_x = [1, 149, 41, 151, 41], res_fun = 1\<rparr>\<rparr>"
proof -
  have "optimized_other
          = optimizer_other\<lparr>priv_optimization_result :=
                              Some \<lparr>res_x = [1, 149, 41, 151, 41], res_fun = 1\<rparr>,
                            is_optimized := True\<rparr>"
    by (simp add: optimized_other_def optimized_other_eq)
  then show ?thesis by (simp add: optimizer_other_def StrategyOptimizerBS_init_def)
qed

lemma best_strategy_test:
  "StrategyOptimizerBS_best_strategy optimized_test h
     = (Inr [0, 1],
        h(0 := (h 0)\<lparr>strike := Some 99, days_to_expiration := Some 31, quantity := Some 1\<rparr>,
          1 := (h 1)\<lparr>strike := Some 101, days_to_expiration := Some 31, quantity := Some 1\<rparr>))"
  by (simp add: optimized_test_val StrategyOptimizerBS_best_strategy_def
      bull_call_spread_test_def)

lemma best_strategy_other:
  "StrategyOptimizerBS_best_strategy optimized_other h
     = (Inr [0, 1],
        h(0 := (h 0)\<lparr>strike := Some 149, days_to_expiration := Some 41, quantity := Some 1\<rparr>,
          1 := (h 1)\<lparr>strike := Some 151, days_to_expiration := Some 41, quantity := Some 1\<rparr>))"
  by (simp add: optimized_other_val StrategyOptimizerBS_best_strategy_def
      bull_call_spread_other_def)

text \<open>
  Claim C5 at the input where the code departs from it: two optimizers, each over its
  own \<^verbatim>\<open>BullCallSpread\<close> object. \<^verbatim>\<open>best_strategy\<close> of the first returns the two leg dicts of
  the class with the strikes 99 and 101. \<^verbatim>\<open>best_strategy\<close> of the second then writes
  149 and 151 into the same two dicts: the list the first optimizer returned, and the
  \<^verbatim>\<open>options\<close> of the first optimizer's strategy, now show the second optimizer's values.
\<close>

theorem C5_shared_leg_dicts:
  "fst (StrategyOptimizerBS_best_strategy optimized_test module_heap) = Inr [0, 1]
   \<and> map (snd (StrategyOptimizerBS_best_strategy optimized_test module_heap)) [0, 1]
       = [\<lparr>type = ''call'', action = ''buy'', strike = Some 99,
           days_to_expiration = Some 31, quantity = Some 1\<rparr>,
          \<lparr>type = ''call'', action = ''sell'', strike = Some 101,
           days_to_expiration = Some 31, quantity = Some 1\<rparr>]
   \<and> map (snd (StrategyOptimizerBS_best_strategy optimized_other
                  (snd (StrategyOptimizerBS_best_strategy optimized_test module_heap)))) [0, 1]
       = [\<lparr>type = ''call'', action = ''buy'', strike = Some 149,
           days_to_expiration = Some 41, quantity = Some 1\<rparr>,
          \<lparr>type = ''call'', action = ''sell'', strike = Some 151,
           days_to_expiration = Some 41, quantity = Some 1\<rparr>]
   \<and> strategy_options
         (snd (StrategyOptimizerBS_best_strategy optimized_other
                 (snd (StrategyOptimizerBS_best_strategy optimized_test module_heap))))
         (strategy optimized_test)
       \<noteq> strategy_options
           (snd (StrategyOptimizerBS_best_strategy optimized_test module_heap))
           (strategy optimized_test)"
proof -
  have s: "strategy optimized_test = bull_call_spread_test"
    by (simp add: optimized_test_val)
  show ?thesis
    unfolding best_strategy_test best_strategy_other s
    by (simp add: module_heap_def new_leg_def strategy_options_def bull_call_spread_test_def)
qed


subsection \<open>The legs \<^verbatim>\<open>best_strategy\<close> returns\<close>










subsection \<open>The legs of the five strategies are well formed\<close>

text \<open>
  The leg dicts of every class are well formed when the module is loaded, and
  \<^verbatim>\<open>best_strategy\<close> never writes the keys \<^verbatim>\<open>type\<close> and \<^verbatim>\<open>action\<close>: the hypothesis
  \<open>list_all well_formed_leg\<close> of the theorems above holds on every heap the program
  reaches.
\<close>

lemma module_legs_well_formed:
  "list_all well_formed_leg (strategy_options module_heap s)"
  by (cases "cls s")
     (simp_all add: strategy_options_def module_heap_def new_leg_def well_formed_leg_def)

lemma write_legs_type_action:
  "type (write_legs q ws h a) = type (h a) \<and> action (write_legs q ws h a) = action (h a)"
  by (simp add: write_legs_apply split: option.splits)

lemma best_strategy_keeps_well_formed:
  assumes "list_all well_formed_leg (strategy_options h s)"
  shows "list_all well_formed_leg
           (strategy_options (snd (StrategyOptimizerBS_best_strategy so h)) s)"
proof -
  have "well_formed_leg (snd (StrategyOptimizerBS_best_strategy so h) a) = well_formed_leg (h a)"
    for a
    by (simp add: StrategyOptimizerBS_best_strategy_def Let_def well_formed_leg_def
        write_legs_type_action split: option.splits list.splits)
  with assms show ?thesis
    by (simp add: strategy_options_def list_all_iff)
qed

subsection \<open>Reads after an \<^verbatim>\<open>optimize\<close> that raised\<close>

text \<open>
  \<^verbatim>\<open>GridSearchBS.optimize\<close> sets \<^verbatim>\<open>is_optimized\<close> before the division that may raise. After
  the run on the single-call catalog, which raises, \<^verbatim>\<open>max_profit\<close> returns the stored
  profit and \<^verbatim>\<open>best_strategy\<close> raises \<^verbatim>\<open>AttributeError\<close> on the missing \<^verbatim>\<open>_quantity\<close>.
\<close>

lemma GridSearchBS_reads_after_failed_optimize:
  "fst (GridSearchBS_optimize sample_price module_heap grid_zero_premium) = Some ZeroDivisionError"
  "GridSearchBS_max_profit (snd (GridSearchBS_optimize sample_price module_heap grid_zero_premium))
     = Inr 10"
  "GridSearchBS_best_strategy (snd (GridSearchBS_optimize sample_price module_heap grid_zero_premium))
     = Inl AttributeError"
proof -
  have q: "priv_quantity grid_zero_premium = None"
    by (simp add: grid_zero_premium_def GridSearchBS_init_def)
  show "fst (GridSearchBS_optimize sample_price module_heap grid_zero_premium)
          = Some ZeroDivisionError"
    by (simp add: grid_zero_premium_run)
  show "GridSearchBS_max_profit
          (snd (GridSearchBS_optimize sample_price module_heap grid_zero_premium)) = Inr 10"
    by (simp add: grid_zero_premium_run GridSearchBS_max_profit_def)
  show "GridSearchBS_best_strategy
          (snd (GridSearchBS_optimize sample_price module_heap grid_zero_premium))
          = Inl AttributeError"
    by (simp add: grid_zero_premium_run GridSearchBS_best_strategy_def q)
qed

end
